theory Spec2Isabelle
  imports Complex_Main
begin

section \<open>Python and NumPy primitives used by qho.py\<close>

text \<open>
  The program computes with IEEE binary64 numbers. The embedding idealises them as the
  real and complex numbers: every arithmetic operation is the exact one. Results that
  NumPy reports as nan or inf (a division by zero, the square root of a negative number)
  are kept apart from the finite ones by the type \<open>np\<close> below, so that no total HOL
  operation stands in for them.
\<close>

datatype py_error = IndexError | ZeroDivisionError | AttributeError | TypeError

text \<open>Sequencing of two computations that may raise: the first exception wins.\<close>

definition bind_err :: "py_error + 'a \<Rightarrow> ('a \<Rightarrow> py_error + 'b) \<Rightarrow> py_error + 'b" where
  "bind_err m k = (case m of Inl e \<Rightarrow> Inl e | Inr v \<Rightarrow> k v)"

text \<open>
  Subscription \<open>xs[i]\<close> of a Python list of length \<open>len\<close>: the indices \<open>0 .. len - 1\<close>
  read from the front, the indices \<open>-len .. -1\<close> from the back, every other index raises.
\<close>

definition getitem :: "'a list \<Rightarrow> int \<Rightarrow> py_error + 'a" where
  "getitem xs i =
     (if 0 \<le> i \<and> i < int (length xs) then Inr (xs ! nat i)
      else if i < 0 \<and> - int (length xs) \<le> i then Inr (xs ! nat (int (length xs) + i))
      else Inl IndexError)"

text \<open>Python 3 \<open>round(v)\<close> on a float: the nearest integer, a tie going to the even one.\<close>

definition py_round :: "real \<Rightarrow> int" where
  "py_round v =
     (let f = \<lfloor>v\<rfloor>; d = v - of_int f
      in if d < 1 / 2 then f
         else if 1 / 2 < d then f + 1
         else if even f then f else f + 1)"

text \<open>
  \<open>numpy.linspace(start, stop, num)\<close> with its default \<open>endpoint=True\<close>: the step
  is \<open>(stop - start) / (num - 1)\<close> and the last entry is set to \<open>stop\<close>. A negative
  \<open>num\<close> is rejected by NumPy before any array exists, so \<open>num\<close> is a natural number
  here.
\<close>

definition linspace :: "real \<Rightarrow> real \<Rightarrow> nat \<Rightarrow> real list" where
  "linspace start stop num =
     (if num = 0 then []
      else if num = 1 then [start]
      else map (\<lambda>i. if i = num - 1 then stop
                     else start + real i * ((stop - start) / real (num - 1))) [0..<num])"

text \<open>A NumPy scalar result: finite, or one of nan, inf, -inf.\<close>

datatype 'a np = Finite 'a | NonFinite

text \<open>\<open>numpy.sqrt\<close> on a real scalar: nan (with a warning, no exception) below zero.\<close>

definition np_sqrt :: "real \<Rightarrow> real np" where
  "np_sqrt v = (if v < 0 then NonFinite else Finite (sqrt v))"

text \<open>
  Division of a complex amplitude by a NumPy float scalar: a zero or non-finite divisor
  gives a non-finite result (with a warning), never a ZeroDivisionError.
\<close>

definition np_div :: "complex \<Rightarrow> real np \<Rightarrow> complex np" where
  "np_div z d =
     (case d of NonFinite \<Rightarrow> NonFinite
      | Finite r \<Rightarrow> if r = 0 then NonFinite else Finite (z / complex_of_real r))"

section \<open>FunctionSampler\<close>

text \<open>
  \<^verbatim>\<open>
  def __init__(self, f, minX, maxX, numSamples):
      self.minX = minX
      self.maxX = maxX
      self.range = maxX - minX
      self.numSamples = numSamples
      self.domain = np.linspace(minX, maxX, numSamples)
      self.image = [f(x) for x in self.domain]
  \<close>
  The fields \<open>range\<close> and \<open>image\<close> carry the suffix \<open>_fs\<close>: both names are constants
  of HOL.
\<close>

record 'a FunctionSampler =
  minX :: real
  maxX :: real
  range_fs :: real
  numSamples :: nat
  domain :: "real list"
  image_fs :: "'a list"

definition FunctionSampler_init ::
  "(real \<Rightarrow> 'a) \<Rightarrow> real \<Rightarrow> real \<Rightarrow> nat \<Rightarrow> 'a FunctionSampler" where
  "FunctionSampler_init f lo hi n =
     \<lparr> minX = lo, maxX = hi, range_fs = hi - lo, numSamples = n,
       domain = linspace lo hi n, image_fs = map f (linspace lo hi n) \<rparr>"

text \<open>
  \<^verbatim>\<open>
  def __call__(self, x):
      x = min(max(x, self.minX), self.maxX - 1)
      x -= self.minX
      x = round(x * (self.numSamples / self.range))
      return self.image[int(x)]
  \<close>
  \<open>FunctionSampler_index\<close> is the value of \<open>x\<close> after the third line.
\<close>

definition FunctionSampler_index :: "'a FunctionSampler \<Rightarrow> real \<Rightarrow> int" where
  "FunctionSampler_index fs x =
     (let x1 = min (max x (minX fs)) (maxX fs - 1);
          x2 = x1 - minX fs
      in py_round (x2 * (real (numSamples fs) / range_fs fs)))"

definition FunctionSampler_call :: "'a FunctionSampler \<Rightarrow> real \<Rightarrow> py_error + 'a" where
  "FunctionSampler_call fs x =
     (if range_fs fs = 0 then Inl ZeroDivisionError
      else getitem (image_fs fs) (FunctionSampler_index fs x))"

section \<open>HilbertSpace\<close>

text \<open>
  \<open>scipy.special.hermite(n)\<close> is the physicists' Hermite polynomial of degree \<open>n\<close>,
  given here by its three-term recurrence; \<open>scipy.special.factorial(n)\<close> is \<open>n!\<close>.
\<close>

fun hermite :: "nat \<Rightarrow> real \<Rightarrow> real" where
  "hermite 0 x = 1"
| "hermite (Suc 0) x = 2 * x"
| "hermite (Suc (Suc n)) x = 2 * x * hermite (Suc n) x - 2 * real (Suc n) * hermite n x"

text \<open>
  The closed form assigned to \<open>self.QHOBasis\<close> before the tables are built:
  \<^verbatim>\<open>
  lambda n, x: (1 / np.sqrt(2 ** n * factorial(n)) * np.pi ** (1 / 4)) * np.exp(
      -x ** 2 / 2) * hermite(n)(x)
  \<close>
  Python parses \<open>1 / a * b\<close> as \<open>(1 / a) * b\<close> and \<open>-x ** 2 / 2\<close> as \<open>(-(x ** 2)) / 2\<close>.
\<close>

definition QHOBasis :: "nat \<Rightarrow> real \<Rightarrow> real" where
  "QHOBasis n x =
     (1 / sqrt (2 ^ n * fact n) * pi powr (1 / 4)) * exp (- (x ^ 2) / 2) * hermite n x"

text \<open>
  \<^verbatim>\<open>
  def __init__(self, dim, basis='QHO', hamiltonianPotential=None):
      self.dim = dim
      if hamiltonianPotential is not None:
          self.V = hamiltonianPotential
      if basis == 'QHO':
          self.QHOBasis = <closed form>
          QHOBasisApprox = []
          for n in range(self.dim):
              QHOBasisApprox.append(FunctionSampler(lambda x: self.QHOBasis(n, x), -15, 15, 2000))
          self.QHOBasis = lambda n, x: QHOBasisApprox[n](x)
          self.eigenbasis = self.QHOBasis
          self.eigenvalues = lambda n: 1 / 2 + n
  \<close>
  Each FunctionSampler calls its function while it is constructed, that is while
  \<open>self.QHOBasis\<close> is still the closed form and \<open>n\<close> is the mode of the current
  iteration. The attributes \<open>eigenbasis\<close> and \<open>eigenvalues\<close> exist only for the basis
  \<open>'QHO'\<close>: the field \<open>QHOBasisApprox\<close> is \<open>None\<close> otherwise, and \<open>V\<close> is \<open>None\<close>
  when the attribute is not set.
\<close>

record HilbertSpace =
  dim :: int
  V :: "(real \<Rightarrow> real) option"
  QHOBasisApprox :: "real FunctionSampler list option"

fun QHOBasisApprox_loop ::
  "nat list \<Rightarrow> real FunctionSampler list \<Rightarrow> real FunctionSampler list" where
  "QHOBasisApprox_loop [] acc = acc"
| "QHOBasisApprox_loop (n # ns) acc =
     QHOBasisApprox_loop ns (acc @ [FunctionSampler_init (\<lambda>x. QHOBasis n x) (- 15) 15 2000])"

definition HilbertSpace_init :: "int \<Rightarrow> string \<Rightarrow> (real \<Rightarrow> real) option \<Rightarrow> HilbertSpace" where
  "HilbertSpace_init d basis hamiltonianPotential =
     \<lparr> dim = d, V = hamiltonianPotential,
       QHOBasisApprox =
         (if basis = ''QHO'' then Some (QHOBasisApprox_loop [0..<nat d] []) else None) \<rparr>"

definition eigenbasis :: "HilbertSpace \<Rightarrow> int \<Rightarrow> real \<Rightarrow> py_error + real" where
  "eigenbasis h n x =
     (case QHOBasisApprox h of None \<Rightarrow> Inl AttributeError
      | Some tables \<Rightarrow> bind_err (getitem tables n) (\<lambda>fs. FunctionSampler_call fs x))"

definition eigenvalues :: "HilbertSpace \<Rightarrow> int \<Rightarrow> py_error + real" where
  "eigenvalues h n =
     (case QHOBasisApprox h of None \<Rightarrow> Inl AttributeError
      | Some tables \<Rightarrow> Inr (1 / 2 + real_of_int n))"

section \<open>WaveFunction\<close>

text \<open>
  \<open>scipy.integrate.quad(g, -inf, inf)[0]\<close> is a parameter of the model: a routine that
  calls the integrand \<open>g\<close> and returns a number, an exception of \<open>g\<close> passing through.
\<close>

type_synonym quadrature = "(real \<Rightarrow> py_error + real) \<Rightarrow> py_error + real"

record WaveFunction =
  hilbert :: HilbertSpace
  coeff :: "complex list"
  normF :: "real np"

text \<open>
  \<^verbatim>\<open>
  def phaseFactor(self, n, t):
      return np.exp(-1j * self.hilbert.eigenvalues(n) * t)
  \<close>
\<close>

definition phaseFactor :: "HilbertSpace \<Rightarrow> int \<Rightarrow> real \<Rightarrow> py_error + complex" where
  "phaseFactor h n t =
     bind_err (eigenvalues h n) (\<lambda>e. Inr (exp (- \<i> * complex_of_real e * complex_of_real t)))"

text \<open>
  The local \<open>evaluate\<close> of the constructor, before normalisation:
  \<^verbatim>\<open>
  evaluate = lambda x, t: sum(
      [self.coeff[n] * self.hilbert.eigenbasis(n, x) * self.phaseFactor(n, t)
       for n in range(self.hilbert.dim)])
  \<close>
\<close>

fun evaluate_terms ::
  "HilbertSpace \<Rightarrow> complex list \<Rightarrow> real \<Rightarrow> real \<Rightarrow> nat list \<Rightarrow> py_error + complex list" where
  "evaluate_terms h cs x t [] = Inr []"
| "evaluate_terms h cs x t (n # ns) =
     bind_err (getitem cs (int n)) (\<lambda>c.
     bind_err (eigenbasis h (int n) x) (\<lambda>b.
     bind_err (phaseFactor h (int n) t) (\<lambda>p.
     bind_err (evaluate_terms h cs x t ns) (\<lambda>rest.
       Inr (c * complex_of_real b * p # rest)))))"

definition evaluate_raw :: "HilbertSpace \<Rightarrow> complex list \<Rightarrow> real \<Rightarrow> real \<Rightarrow> py_error + complex" where
  "evaluate_raw h cs x t =
     bind_err (evaluate_terms h cs x t [0..<nat (dim h)]) (\<lambda>ts. Inr (sum_list ts))"

text \<open>
  \<^verbatim>\<open>
  def normalize(self, waveFunc):
      return np.sqrt(integrate.quad(lambda x: np.absolute(waveFunc(x)) ** 2, -np.inf, np.inf)[0])
  \<close>
\<close>

definition normalize :: "quadrature \<Rightarrow> (real \<Rightarrow> py_error + complex) \<Rightarrow> py_error + real np" where
  "normalize quad waveFunc =
     bind_err (quad (\<lambda>x. bind_err (waveFunc x) (\<lambda>z. Inr ((cmod z) ^ 2))))
       (\<lambda>v. Inr (np_sqrt v))"

text \<open>
  \<^verbatim>\<open>
  def orthogonalBasisProjection(self, waveFunc):
      coeff = []
      for n in range(hs.dim):
          coeff.append(
              integrate.quad(lambda x: np.conj(self.hilbert.eigenbasis(n, x)) * waveFunc(x), -np.inf, np.inf)[0])
      return coeff
  \<close>
  \<open>hs\<close> is the module-level variable of the script, not \<open>self.hilbert\<close>: it is the
  first argument here. The basis values are real, so \<open>np.conj\<close> leaves them as they
  are; the initial waveform is real-valued, as \<open>quad\<close> integrates real functions. A
  waveform that was never given is \<open>None\<close>, and calling it raises TypeError.
\<close>

fun projection_loop ::
  "quadrature \<Rightarrow> HilbertSpace \<Rightarrow> (real \<Rightarrow> real) option \<Rightarrow> nat list \<Rightarrow> complex list
     \<Rightarrow> py_error + complex list" where
  "projection_loop quad h waveFunc [] acc = Inr acc"
| "projection_loop quad h waveFunc (n # ns) acc =
     bind_err
       (quad (\<lambda>x. bind_err (eigenbasis h (int n) x) (\<lambda>b.
          case waveFunc of None \<Rightarrow> Inl TypeError | Some w \<Rightarrow> Inr (b * w x))))
       (\<lambda>c. projection_loop quad h waveFunc ns (acc @ [complex_of_real c]))"

definition orthogonalBasisProjection ::
  "quadrature \<Rightarrow> HilbertSpace \<Rightarrow> HilbertSpace \<Rightarrow> (real \<Rightarrow> real) option
     \<Rightarrow> py_error + complex list" where
  "orthogonalBasisProjection quad hs self_hilbert waveFunc =
     projection_loop quad self_hilbert waveFunc [0..<nat (dim hs)] []"

text \<open>
  \<^verbatim>\<open>
  def __init__(self, hilbertSpace, initWaveFunc=None, coeff=None):
      self.hilbert = hilbertSpace
      if coeff != None:
          self.coeff = coeff
      else:
          self.evaluate = lambda x: initWaveFunc(x)
          self.coeff = self.orthogonalBasisProjection(initWaveFunc)
      evaluate = <the raw superposition>
      normF = self.normalize(lambda x: evaluate(x, 0))
      self.evaluate = lambda x, t: evaluate(x, t) / normF
  \<close>
  The constructor returns the object with its coefficients and the captured \<open>normF\<close>;
  \<open>evaluate\<close> below is the closure it stores in \<open>self.evaluate\<close>.
\<close>

definition WaveFunction_init ::
  "quadrature \<Rightarrow> HilbertSpace \<Rightarrow> HilbertSpace \<Rightarrow> (real \<Rightarrow> real) option
     \<Rightarrow> complex list option \<Rightarrow> py_error + WaveFunction" where
  "WaveFunction_init quad hs hilbertSpace initWaveFunc coeff_arg =
     bind_err
       (case coeff_arg of Some cs \<Rightarrow> Inr cs
        | None \<Rightarrow> orthogonalBasisProjection quad hs hilbertSpace initWaveFunc)
       (\<lambda>cs. bind_err (normalize quad (\<lambda>x. evaluate_raw hilbertSpace cs x 0))
         (\<lambda>nf. Inr \<lparr> hilbert = hilbertSpace, coeff = cs, normF = nf \<rparr>))"

definition evaluate :: "WaveFunction \<Rightarrow> real \<Rightarrow> real \<Rightarrow> py_error + complex np" where
  "evaluate psi x t =
     bind_err (evaluate_raw (hilbert psi) (coeff psi) x t) (\<lambda>z. Inr (np_div z (normF psi)))"

section \<open>The script's module-level objects\<close>

text \<open>
  \<^verbatim>\<open>
  hs = HilbertSpace(dim=2, hamiltonianPotential=lambda x: 1 / 2 * x ** 2, basis='QHO')
  \<close>
\<close>

definition script_potential :: "real \<Rightarrow> real" where
  "script_potential x = 1 / 2 * x ^ 2"

definition hs :: HilbertSpace where
  "hs = HilbertSpace_init 2 ''QHO'' (Some script_potential)"

section \<open>Notions used to state the properties\<close>

text \<open>
  The grid point whose stored value a basis table returns for the query \<open>x\<close>: the tables
  are built over \<open>linspace(-15, 15, 2000)\<close>, and the index is the one \<open>__call__\<close>
  computes for these bounds.
\<close>

definition basis_table_index :: "real \<Rightarrow> int" where
  "basis_table_index x = py_round ((min (max x (- 15)) (15 - 1) - (- 15)) * (2000 / (15 - (- 15))))"

definition basis_grid_point :: "real \<Rightarrow> real" where
  "basis_grid_point x = linspace (- 15) 15 2000 ! nat (basis_table_index x)"

text \<open>
  The superposition as the specification writes it, with the table value of mode \<open>n\<close>
  for \<open>eigenbasis(n, x)\<close> and \<open>n + 1/2\<close> for the eigenvalue.
\<close>

definition spec_raw :: "int \<Rightarrow> complex list \<Rightarrow> real \<Rightarrow> real \<Rightarrow> complex" where
  "spec_raw d cs x t =
     (\<Sum>n = 0..<nat d. cs ! n * complex_of_real (QHOBasis n (basis_grid_point x))
        * exp (- \<i> * complex_of_real (real n + 1 / 2) * complex_of_real t))"

text \<open>
  The eigenfunction as the specification writes it, with the normalisation factor
  \<open>1/sqrt(2^n n! sqrt(pi))\<close>.
\<close>

definition spec_eigenfunction :: "nat \<Rightarrow> real \<Rightarrow> real" where
  "spec_eigenfunction n x = 1 / sqrt (2 ^ n * fact n * sqrt pi) * exp (- (x ^ 2) / 2) * hermite n x"

text \<open>
  Inputs for the concrete evaluations: the identity as a sampled function, a Gaussian as
  an initial waveform, and fixed-node quadrature rules (a weighted sum of integrand
  values, the integrand called node by node) in the place of \<open>quad\<close>.
\<close>

definition ramp :: "real \<Rightarrow> real" where
  "ramp x = x"

definition gaussian :: "real \<Rightarrow> real" where
  "gaussian x = exp (- (x ^ 2))"

fun node_quad :: "(real \<times> real) list \<Rightarrow> quadrature" where
  "node_quad [] g = Inr 0"
| "node_quad ((x, w) # ps) g =
     bind_err (g x) (\<lambda>y. bind_err (node_quad ps g) (\<lambda>s. Inr (w * y + s)))"

section \<open>Properties of the primitives\<close>

lemma py_round_lower: "v - 1 / 2 \<le> real_of_int (py_round v)"
  unfolding py_round_def Let_def by (simp; linarith)

lemma py_round_upper: "real_of_int (py_round v) \<le> v + 1 / 2"
  unfolding py_round_def Let_def by (simp; linarith)

lemma py_round_of_int [simp]: "py_round (of_int k) = k"
  by (simp add: py_round_def)

lemma py_round_zero [simp]: "py_round 0 = 0"
  using py_round_of_int [of 0] by simp

lemma py_round_eq:
  "real_of_int k - 1 / 2 < v \<Longrightarrow> v < real_of_int k + 1 / 2 \<Longrightarrow> py_round v = k"
  using py_round_lower [of v] py_round_upper [of v] by linarith

lemma py_round_nonneg: "0 \<le> v \<Longrightarrow> 0 \<le> py_round v"
  using py_round_lower [of v] by linarith

lemma py_round_le: "v \<le> real_of_int k + 1 / 3 \<Longrightarrow> py_round v \<le> k"
  using py_round_upper [of v] by linarith

lemma length_linspace [simp]: "length (linspace a b n) = n"
  by (simp add: linspace_def)

lemma linspace_nth:
  "i < n \<Longrightarrow> 2 \<le> n \<Longrightarrow>
     linspace a b n ! i = a + real i * ((b - a) / real (n - 1))"
  by (auto simp: linspace_def)

lemma linspace_last: "2 \<le> n \<Longrightarrow> linspace a b n ! (n - 1) = b"
  by (simp add: linspace_def)

lemma linspace_first: "1 \<le> n \<Longrightarrow> linspace a b n ! 0 = a"
  by (auto simp: linspace_def)

lemma bind_err_Inr [simp]: "bind_err (Inr v) k = k v"
  by (simp add: bind_err_def)

lemma bind_err_Inl [simp]: "bind_err (Inl e) k = Inl e"
  by (simp add: bind_err_def)

lemma getitem_nth: "n < length xs \<Longrightarrow> getitem xs (int n) = Inr (xs ! n)"
  by (simp add: getitem_def)

lemma getitem_beyond: "length xs \<le> n \<Longrightarrow> getitem xs (int n) = Inl IndexError"
  by (simp add: getitem_def)

section \<open>The lookup of a FunctionSampler\<close>

lemma basis_index_eq:
  "FunctionSampler_index (FunctionSampler_init f (- 15) 15 2000) x = basis_table_index x"
  by (simp add: FunctionSampler_index_def FunctionSampler_init_def basis_table_index_def)

lemma basis_table_index_bounds: "0 \<le> basis_table_index x \<and> basis_table_index x \<le> 1933"
proof -
  define c where "c = min (max x (- 15)) (15 - 1)"
  have c: "- 15 \<le> c" "c \<le> 14" by (auto simp: c_def)
  define v where "v = (c - (- 15)) * (2000 / (15 - (- 15)))"
  have idx: "basis_table_index x = py_round v"
    by (simp add: basis_table_index_def v_def c_def)
  have "0 \<le> v" using c by (simp add: v_def)
  moreover have "v \<le> real_of_int 1933 + 1 / 3" using c by (simp add: v_def)
  ultimately show ?thesis
    unfolding idx using py_round_nonneg [of v] py_round_le [of v 1933] by simp
qed

lemma basis_call:
  "FunctionSampler_call (FunctionSampler_init f (- 15) 15 2000) x = Inr (f (basis_grid_point x))"
proof -
  let ?fs = "FunctionSampler_init f (- 15) 15 2000"
  have b: "0 \<le> basis_table_index x" "basis_table_index x \<le> 1933"
    using basis_table_index_bounds [of x] by simp_all
  have r: "range_fs ?fs \<noteq> 0" by (simp add: FunctionSampler_init_def)
  have im: "image_fs ?fs = map f (linspace (- 15) 15 2000)"
    by (simp add: FunctionSampler_init_def)
  show ?thesis
    using b r unfolding FunctionSampler_call_def getitem_def im basis_index_eq
    by (simp add: basis_grid_point_def)
qed

lemma index_above:
  "hi - 1 \<le> x \<Longrightarrow>
   FunctionSampler_index (FunctionSampler_init f lo hi n) x
     = py_round ((hi - 1 - lo) * (real n / (hi - lo)))"
proof -
  assume "hi - 1 \<le> x"
  then have "min (max x lo) (hi - 1) = hi - 1" by simp
  then show ?thesis by (simp add: FunctionSampler_index_def FunctionSampler_init_def)
qed

lemma index_below:
  "x \<le> lo \<Longrightarrow> 1 \<le> hi - lo \<Longrightarrow>
   FunctionSampler_index (FunctionSampler_init f lo hi n) x = 0"
  by (simp add: FunctionSampler_index_def FunctionSampler_init_def min_def max_def)

lemma basis_table_index_above: "14 \<le> x \<Longrightarrow> basis_table_index x = 1933"
proof -
  assume "14 \<le> x"
  then have "min (max x (- 15)) (15 - 1) = 14" by simp
  then have "basis_table_index x = py_round ((14 - (- 15)) * (2000 / (15 - (- 15))))"
    by (simp add: basis_table_index_def)
  also have "\<dots> = 1933" by (rule py_round_eq) simp_all
  finally show ?thesis .
qed

lemma basis_grid_point_above: "14 \<le> x \<Longrightarrow> basis_grid_point x = - 15 + 1933 * (30 / 1999)"
  using linspace_nth [of 1933 2000 "- 15" 15]
  by (simp add: basis_grid_point_def basis_table_index_above)

text \<open>
  C10. For the basis-table configuration (-15, 15, 2000) and every real query, the
  index computed by the lookup lies between 0 and numSamples - 1 (it is at most 1933),
  so the access to the stored values is in range and returns the value sampled at that
  grid point. No index clamp provides this: with bounds (0, 10) and 2 samples the query
  9 gives the index 2 and an IndexError, and with bounds (0, 1/2) and 4 samples every
  query gives the negative index -4.
\<close>

theorem C10_basis_table_index_in_range:
  "0 \<le> FunctionSampler_index (FunctionSampler_init f (- 15) 15 2000) x
   \<and> FunctionSampler_index (FunctionSampler_init f (- 15) 15 2000) x
        \<le> int (numSamples (FunctionSampler_init f (- 15) 15 2000)) - 1
   \<and> FunctionSampler_call (FunctionSampler_init f (- 15) 15 2000) x
        = Inr (image_fs (FunctionSampler_init f (- 15) 15 2000)
                 ! nat (FunctionSampler_index (FunctionSampler_init f (- 15) 15 2000) x))
   \<and> FunctionSampler_call (FunctionSampler_init f 0 10 2) 9 = Inl IndexError
   \<and> FunctionSampler_index (FunctionSampler_init f 0 (1 / 2) 4) x = - 4"
proof -
  let ?fs = "FunctionSampler_init f (- 15) 15 2000"
  have b: "0 \<le> basis_table_index x" "basis_table_index x \<le> 1933"
    using basis_table_index_bounds [of x] by simp_all
  have n: "numSamples ?fs = 2000" by (simp add: FunctionSampler_init_def)
  have in_range: "0 \<le> FunctionSampler_index ?fs x \<and> FunctionSampler_index ?fs x \<le> int (numSamples ?fs) - 1"
    using b unfolding basis_index_eq n by simp
  have lt: "nat (basis_table_index x) < 2000" using b by simp
  have "image_fs ?fs ! nat (basis_table_index x) = f (basis_grid_point x)"
    using lt by (simp add: FunctionSampler_init_def basis_grid_point_def)
  then have call: "FunctionSampler_call ?fs x = Inr (image_fs ?fs ! nat (FunctionSampler_index ?fs x))"
    unfolding basis_index_eq by (simp add: basis_call)
  have "FunctionSampler_index (FunctionSampler_init f 0 10 2) 9 = py_round (9 / 5)"
    by (simp add: FunctionSampler_index_def FunctionSampler_init_def)
  also have "\<dots> = 2" by (rule py_round_eq) simp_all
  finally have wide: "FunctionSampler_call (FunctionSampler_init f 0 10 2) 9 = Inl IndexError"
    by (simp add: FunctionSampler_call_def getitem_def FunctionSampler_init_def)
  have "FunctionSampler_index (FunctionSampler_init f 0 (1 / 2) 4) x = py_round (real_of_int (- 4))"
    by (simp add: FunctionSampler_index_def FunctionSampler_init_def min_def max_def)
  then have narrow: "FunctionSampler_index (FunctionSampler_init f 0 (1 / 2) 4) x = - 4"
    by (simp only: py_round_of_int)
  show ?thesis using in_range call wide narrow by blast
qed

lemma basis_table_index_zero: "basis_table_index 0 = 1000"
proof -
  have "basis_table_index 0 = py_round 1000" by (simp add: basis_table_index_def)
  also have "\<dots> = 1000" by (rule py_round_eq) simp_all
  finally show ?thesis .
qed

lemma basis_table_index_below: "x \<le> - 15 \<Longrightarrow> basis_table_index x = 0"
  by (simp add: basis_table_index_def max_def)

text \<open>
  Out-of-domain queries in general. For a sampler whose domain is at least 1 wide and
  that holds at least one sample, every query at or below minX returns the first stored
  sample. Every query at or above maxX - 1 returns what the query maxX - 1 returns.
\<close>

lemma FunctionSampler_call_clamped:
  assumes "1 \<le> hi - lo" and "1 \<le> n"
  shows "FunctionSampler_call (FunctionSampler_init f lo hi n) (lo - 100) = Inr (f lo)
       \<and> FunctionSampler_call (FunctionSampler_init f lo hi n) lo = Inr (f lo)
       \<and> FunctionSampler_call (FunctionSampler_init f lo hi n) (hi + 100)
           = FunctionSampler_call (FunctionSampler_init f lo hi n) (hi - 1)
       \<and> FunctionSampler_call (FunctionSampler_init f lo hi n) hi
           = FunctionSampler_call (FunctionSampler_init f lo hi n) (hi - 1)
       \<and> FunctionSampler_call (FunctionSampler_init f lo hi n) (hi - 1)
           = getitem (image_fs (FunctionSampler_init f lo hi n))
               (py_round ((hi - 1 - lo) * (real n / (hi - lo))))"
proof -
  let ?fs = "FunctionSampler_init f lo hi n"
  have r: "range_fs ?fs \<noteq> 0" using assms by (simp add: FunctionSampler_init_def)
  have im: "image_fs ?fs = map f (linspace lo hi n)" by (simp add: FunctionSampler_init_def)
  have z: "getitem (map f (linspace lo hi n)) 0 = Inr (f lo)"
    using assms linspace_first [of n lo hi] by (simp add: getitem_def)
  have "FunctionSampler_call ?fs (lo - 100) = Inr (f lo)"
    using r z assms by (simp add: FunctionSampler_call_def im index_below)
  moreover have "FunctionSampler_call ?fs lo = Inr (f lo)"
    using r z assms by (simp add: FunctionSampler_call_def im index_below)
  moreover have "FunctionSampler_call ?fs (hi + 100) = FunctionSampler_call ?fs (hi - 1)"
    by (simp add: FunctionSampler_call_def index_above)
  moreover have "FunctionSampler_call ?fs hi = FunctionSampler_call ?fs (hi - 1)"
    by (simp add: FunctionSampler_call_def index_above)
  moreover have "FunctionSampler_call ?fs (hi - 1)
      = getitem (image_fs ?fs) (py_round ((hi - 1 - lo) * (real n / (hi - lo))))"
    using r by (simp add: FunctionSampler_call_def index_above)
  ultimately show ?thesis by blast
qed

text \<open>
  C5. For the sampler of the identity over (-15, 15, 2000) the query minX - 100 returns
  the nearest boundary sample, the first one. The query maxX + 100 does not: the upper
  clamp is \<open>self.maxX - 1\<close>, so it returns the sample stored at index 1933 (the value
  at the grid point -15 + 1933 * 30 / 1999), not the last stored sample at index 1999
  (the value at 15). The query maxX itself returns the same sample at index 1933, and no
  query reaches an index above 1933.
\<close>

theorem C5_upper_clamp_misses_boundary_sample:
  "FunctionSampler_call (FunctionSampler_init ramp (- 15) 15 2000) (15 + 100)
     = Inr (image_fs (FunctionSampler_init ramp (- 15) 15 2000) ! 1933)
   \<and> last (image_fs (FunctionSampler_init ramp (- 15) 15 2000))
       = image_fs (FunctionSampler_init ramp (- 15) 15 2000) ! 1999
   \<and> image_fs (FunctionSampler_init ramp (- 15) 15 2000) ! 1933 = - 15 + 1933 * (30 / 1999)
   \<and> image_fs (FunctionSampler_init ramp (- 15) 15 2000) ! 1999 = 15
   \<and> FunctionSampler_call (FunctionSampler_init ramp (- 15) 15 2000) (15 + 100)
       \<noteq> Inr (last (image_fs (FunctionSampler_init ramp (- 15) 15 2000)))
   \<and> FunctionSampler_call (FunctionSampler_init ramp (- 15) 15 2000) 15
       = Inr (image_fs (FunctionSampler_init ramp (- 15) 15 2000) ! 1933)
   \<and> FunctionSampler_call (FunctionSampler_init ramp (- 15) 15 2000) (- 15 - 100)
       = Inr (image_fs (FunctionSampler_init ramp (- 15) 15 2000) ! 0)
   \<and> FunctionSampler_index (FunctionSampler_init ramp (- 15) 15 2000) x \<le> 1933"
proof -
  let ?fs = "FunctionSampler_init ramp (- 15) 15 2000"
  have g: "linspace (- 15) 15 2000 ! 1933 = - 15 + 1933 * (30 / 1999)"
    using linspace_nth [of 1933 2000 "- 15" 15] by simp
  have i: "image_fs ?fs ! 1933 = - 15 + 1933 * (30 / 1999)"
    by (simp add: FunctionSampler_init_def g ramp_def)
  have above: "FunctionSampler_call ?fs y = Inr (image_fs ?fs ! 1933)" if "14 \<le> y" for y
  proof -
    have "FunctionSampler_call ?fs y = Inr (ramp (basis_grid_point y))" by (rule basis_call)
    also have "\<dots> = Inr (- 15 + 1933 * (30 / 1999))"
      using that by (simp add: basis_grid_point_above ramp_def)
    finally show ?thesis by (simp only: i)
  qed
  have ne: "linspace (- 15) 15 2000 \<noteq> []"
    using length_linspace [of "- 15" 15 2000] by (metis length_0_conv zero_neq_numeral)
  have la: "last (image_fs ?fs) = image_fs ?fs ! 1999"
    using ne by (simp add: FunctionSampler_init_def last_conv_nth)
  have "linspace (- 15) 15 2000 ! (2000 - 1) = 15" by (rule linspace_last) simp
  then have l: "image_fs ?fs ! 1999 = 15"
    by (simp add: FunctionSampler_init_def ramp_def)
  have z: "image_fs ?fs ! 0 = - 15"
    using linspace_first [of 2000 "- 15" 15] by (simp add: FunctionSampler_init_def ramp_def)
  have "FunctionSampler_call ?fs (- 15 - 100) = Inr (ramp (basis_grid_point (- 15 - 100)))"
    by (rule basis_call)
  also have "\<dots> = Inr (- 15)"
    using linspace_first [of 2000 "- 15" 15]
    by (simp add: basis_grid_point_def basis_table_index_below ramp_def)
  finally have lower: "FunctionSampler_call ?fs (- 15 - 100) = Inr (image_fs ?fs ! 0)"
    by (simp only: z)
  have top: "FunctionSampler_index ?fs x \<le> 1933"
    using basis_table_index_bounds [of x] by (simp add: basis_index_eq)
  have c: "FunctionSampler_call ?fs (15 + 100) = Inr (- 15 + 1933 * (30 / 1999))"
    using above [of "15 + 100"] i by simp
  have ne2: "FunctionSampler_call ?fs (15 + 100) \<noteq> Inr (last (image_fs ?fs))"
    unfolding la l using c by simp
  show ?thesis
    using above [of "15 + 100"] above [of 15] la i l ne2 lower top by simp
qed

text \<open>
  The grid of a sampler in general: numSamples points, the results stored in order; for
  at least two samples the points are minX + i * (maxX - minX) / (numSamples - 1), the
  last one being maxX; within the closed interval from minX to maxX.
\<close>

lemma FunctionSampler_init_grid:
  "length (domain (FunctionSampler_init f lo hi n)) = n
   \<and> image_fs (FunctionSampler_init f lo hi n) = map f (domain (FunctionSampler_init f lo hi n))
   \<and> (i < n \<longrightarrow> domain (FunctionSampler_init f lo hi n) ! i
          = (if n = 1 then lo else lo + real i * ((hi - lo) / real (n - 1))))
   \<and> (2 \<le> n \<longrightarrow> domain (FunctionSampler_init f lo hi n) ! (n - 1) = hi)
   \<and> (i < n \<and> lo \<le> hi \<longrightarrow> lo \<le> domain (FunctionSampler_init f lo hi n) ! i
          \<and> domain (FunctionSampler_init f lo hi n) ! i \<le> hi)"
proof -
  have d: "domain (FunctionSampler_init f lo hi n) = linspace lo hi n"
    by (simp add: FunctionSampler_init_def)
  have nth: "linspace lo hi n ! i = (if n = 1 then lo else lo + real i * ((hi - lo) / real (n - 1)))"
    if "i < n"
    using that linspace_nth [of i n lo hi] linspace_first [of n lo hi]
    by (cases "n = 1") auto
  have bnd: "lo \<le> linspace lo hi n ! i \<and> linspace lo hi n ! i \<le> hi" if "i < n" "lo \<le> hi"
  proof (cases "n = 1")
    case True
    then show ?thesis using that nth by simp
  next
    case False
    then have n2: "2 \<le> n" using that by simp
    have e: "linspace lo hi n ! i = lo + real i * ((hi - lo) / real (n - 1))"
      using nth that False by simp
    have q: "0 \<le> real i / real (n - 1)" "real i / real (n - 1) \<le> 1"
      using that n2 by (simp_all add: divide_le_eq)
    have "0 \<le> real i / real (n - 1) * (hi - lo)" using q that by simp
    moreover have "real i / real (n - 1) * (hi - lo) \<le> 1 * (hi - lo)"
      using q that by (intro mult_right_mono) simp_all
    ultimately show ?thesis unfolding e by (simp add: field_simps)
  qed
  show ?thesis
    unfolding d using nth bnd linspace_last [of n lo hi]
    by (simp add: FunctionSampler_init_def)
qed

text \<open>
  C6. The sampler over (-15, 15, 2000) holds 2000 results stored in order, but its points
  are not in the half-open interval: the last point is maxX = 15 itself, the function is
  evaluated there, and the spacing is 30 / 1999, not 30 / 2000. The lookup of the same
  class scales a query by numSamples / range, the spacing 30 / 2000 of the half-open
  grid: for the identity the query 0 reads index 1000 and returns 15 / 1999, not 0.
\<close>

theorem C6_grid_includes_endpoint:
  "length (image_fs (FunctionSampler_init ramp (- 15) 15 2000)) = 2000
   \<and> image_fs (FunctionSampler_init ramp (- 15) 15 2000)
       = map ramp (domain (FunctionSampler_init ramp (- 15) 15 2000))
   \<and> domain (FunctionSampler_init ramp (- 15) 15 2000) ! 1999
       = maxX (FunctionSampler_init ramp (- 15) 15 2000)
   \<and> \<not> domain (FunctionSampler_init ramp (- 15) 15 2000) ! 1999
          < maxX (FunctionSampler_init ramp (- 15) 15 2000)
   \<and> image_fs (FunctionSampler_init ramp (- 15) 15 2000) ! 1999 = ramp 15
   \<and> domain (FunctionSampler_init ramp (- 15) 15 2000) ! 1
        - domain (FunctionSampler_init ramp (- 15) 15 2000) ! 0 = 30 / 1999
   \<and> FunctionSampler_index (FunctionSampler_init ramp (- 15) 15 2000) 0 = 1000
   \<and> domain (FunctionSampler_init ramp (- 15) 15 2000) ! 1000 = 15 / 1999
   \<and> FunctionSampler_call (FunctionSampler_init ramp (- 15) 15 2000) 0 = Inr (15 / 1999)"
proof -
  let ?fs = "FunctionSampler_init ramp (- 15) 15 2000"
  have "linspace (- 15) 15 2000 ! (2000 - 1) = 15" by (rule linspace_last) simp
  then have l: "linspace (- 15) 15 2000 ! 1999 = 15" by simp
  have p0: "linspace (- 15) 15 2000 ! 0 = - 15"
    using linspace_first [of 2000 "- 15" 15] by simp
  have p1: "linspace (- 15) 15 2000 ! Suc 0 = - 15 + 30 / 1999"
    using linspace_nth [of "Suc 0" 2000 "- 15" 15] by simp
  have pm: "linspace (- 15) 15 2000 ! 1000 = 15 / 1999"
    using linspace_nth [of 1000 2000 "- 15" 15] by simp
  have idx: "FunctionSampler_index ?fs 0 = 1000"
    by (simp add: basis_index_eq basis_table_index_zero)
  have "FunctionSampler_call ?fs 0 = Inr (ramp (basis_grid_point 0))" by (rule basis_call)
  also have "\<dots> = Inr (15 / 1999)"
    by (simp add: basis_grid_point_def basis_table_index_zero pm ramp_def)
  finally have call: "FunctionSampler_call ?fs 0 = Inr (15 / 1999)" .
  show ?thesis
    using idx call by (simp add: FunctionSampler_init_def l p0 p1 pm)
qed

section \<open>The basis tables of a HilbertSpace\<close>

lemma QHOBasisApprox_loop_eq:
  "QHOBasisApprox_loop ns acc
     = acc @ map (\<lambda>n. FunctionSampler_init (QHOBasis n) (- 15) 15 2000) ns"
  by (induction ns arbitrary: acc) simp_all

lemma QHO_tables:
  "QHOBasisApprox (HilbertSpace_init d ''QHO'' pot)
     = Some (map (\<lambda>n. FunctionSampler_init (QHOBasis n) (- 15) 15 2000) [0..<nat d])"
  by (simp add: HilbertSpace_init_def QHOBasisApprox_loop_eq)

lemma dim_init [simp]: "dim (HilbertSpace_init d basis pot) = d"
  by (simp add: HilbertSpace_init_def)

lemma eigenbasis_lookup:
  "n < nat d \<Longrightarrow>
   eigenbasis (HilbertSpace_init d ''QHO'' pot) (int n) x = Inr (QHOBasis n (basis_grid_point x))"
  by (simp add: eigenbasis_def QHO_tables getitem_nth basis_call)

lemma eigenbasis_beyond:
  "nat d \<le> n \<Longrightarrow> eigenbasis (HilbertSpace_init d ''QHO'' pot) (int n) x = Inl IndexError"
  by (simp add: eigenbasis_def QHO_tables getitem_beyond)

lemma eigenvalues_QHO:
  "eigenvalues (HilbertSpace_init d ''QHO'' pot) n = Inr (1 / 2 + real_of_int n)"
  by (simp add: eigenvalues_def QHO_tables)

lemma phaseFactor_QHO:
  "phaseFactor (HilbertSpace_init d ''QHO'' pot) (int n) t
     = Inr (exp (- \<i> * complex_of_real (real n + 1 / 2) * complex_of_real t))"
  by (simp add: phaseFactor_def eigenvalues_QHO add.commute)

lemma evaluate_terms_QHO:
  "(\<And>n. n \<in> set ns \<Longrightarrow> n < nat d \<and> n < length cs) \<Longrightarrow>
   evaluate_terms (HilbertSpace_init d ''QHO'' pot) cs x t ns
     = Inr (map (\<lambda>n. cs ! n * complex_of_real (QHOBasis n (basis_grid_point x))
                  * exp (- \<i> * complex_of_real (real n + 1 / 2) * complex_of_real t)) ns)"
proof (induction ns)
  case Nil
  show ?case by simp
next
  case (Cons n ns)
  have n: "n < nat d" "n < length cs" using Cons.prems [of n] by simp_all
  have rest: "evaluate_terms (HilbertSpace_init d ''QHO'' pot) cs x t ns
     = Inr (map (\<lambda>n. cs ! n * complex_of_real (QHOBasis n (basis_grid_point x))
                  * exp (- \<i> * complex_of_real (real n + 1 / 2) * complex_of_real t)) ns)"
    using Cons.prems by (intro Cons.IH) simp
  show ?case
    using n by (simp add: getitem_nth eigenbasis_lookup phaseFactor_QHO rest)
qed

lemma evaluate_raw_QHO:
  assumes "nat d \<le> length cs"
  shows "evaluate_raw (HilbertSpace_init d ''QHO'' pot) cs x t = Inr (spec_raw d cs x t)"
proof -
  have "evaluate_terms (HilbertSpace_init d ''QHO'' pot) cs x t [0..<nat d]
     = Inr (map (\<lambda>n. cs ! n * complex_of_real (QHOBasis n (basis_grid_point x))
                  * exp (- \<i> * complex_of_real (real n + 1 / 2) * complex_of_real t)) [0..<nat d])"
    using assms by (intro evaluate_terms_QHO) simp
  then show ?thesis
    by (simp add: evaluate_raw_def spec_raw_def interv_sum_list_conv_sum_set_nat)
qed

lemma evaluate_raw_short:
  assumes "length cs < nat d"
  shows "evaluate_raw (HilbertSpace_init d ''QHO'' pot) cs x t = Inl IndexError"
proof -
  have split: "[0..<nat d] = [0..<length cs] @ length cs # [Suc (length cs)..<nat d]"
    using assms by (metis less_imp_le_nat upt_add_eq_append upt_conv_Cons le_add_diff_inverse zero_le)
  have app: "evaluate_terms h cs x t (as @ n # bs) = Inl IndexError"
    if "length cs \<le> n" "\<And>a. a \<in> set as \<Longrightarrow> a < nat d \<and> a < length cs"
      "h = HilbertSpace_init d ''QHO'' pot" for h as n bs
    using that
  proof (induction as)
    case Nil
    then show ?case by (simp add: getitem_beyond)
  next
    case (Cons a as)
    have a: "a < nat d" "a < length cs" using Cons.prems(2) [of a] by simp_all
    have "evaluate_terms h cs x t (as @ n # bs) = Inl IndexError"
      using Cons.prems by (intro Cons.IH) simp_all
    then show ?case
      using a Cons.prems(3) by (simp add: getitem_nth eigenbasis_lookup phaseFactor_QHO)
  qed
  have "evaluate_terms (HilbertSpace_init d ''QHO'' pot) cs x t
          ([0..<length cs] @ length cs # [Suc (length cs)..<nat d]) = Inl IndexError"
    using assms by (intro app) simp_all
  then show ?thesis
    unfolding evaluate_raw_def dim_init by (subst split) simp
qed

section \<open>The eigenvalues and the closed form\<close>

text \<open>
  The sum \<open>1/2 + n\<close> is an odd integer over 2; for a mode index below \<open>2^52\<close> that
  integer is below \<open>2^53\<close>, so the sum is a binary64 number and the floating-point
  addition returns it without rounding.
\<close>

lemma half_integer_significand:
  "0 \<le> n \<Longrightarrow> n < 2 ^ 52 \<Longrightarrow>
     1 / 2 + real_of_int n = real_of_int (2 * n + 1) / 2 \<and> 2 * n + 1 < 2 ^ 53"
  by (simp add: field_simps)

text \<open>
  C4. For the quantum-harmonic-oscillator basis the eigenvalue function returns n + 0.5
  for every mode index n, in particular for every n from 0 to dim - 1.
\<close>

theorem C4_eigenvalue_closed_form:
  "eigenvalues (HilbertSpace_init d ''QHO'' pot) n = Inr (real_of_int n + 0.5)"
  by (simp add: eigenvalues_QHO)

lemma pi_powr_quarter: "pi powr (1 / 4) = sqrt (sqrt pi)"
proof -
  have "pi powr (1 / 4) = (pi powr (1 / 2)) powr (1 / 2)"
    by (simp add: powr_powr)
  then show ?thesis by (simp add: powr_half_sqrt)
qed

lemma QHOBasis_vs_spec: "QHOBasis n x = sqrt pi * spec_eigenfunction n x"
proof -
  define a :: real where "a = 2 ^ n * fact n"
  define q where "q = sqrt (sqrt pi)"
  have a: "0 < a" by (simp add: a_def)
  have q: "0 < q" "q * q = sqrt pi" by (simp_all add: q_def)
  have "1 / sqrt a * q = sqrt pi * (1 / sqrt (a * sqrt pi))"
    using a q by (simp add: real_sqrt_mult field_simps flip: q_def)
  then show ?thesis
    unfolding QHOBasis_def spec_eigenfunction_def pi_powr_quarter
    by (simp add: a_def q_def mult.assoc)
qed

text \<open>
  C3. The closed form sampled into the tables is the square root of pi times the
  eigenfunction of the claim: its factor is pi^(1/4) / sqrt(2^n n!), not
  1 / sqrt(2^n n! sqrt(pi)). At n = 0 and x = 0 the code gives pi^(1/4), the claim
  1 / pi^(1/4).
\<close>

theorem C3_closed_form_factor:
  "QHOBasis n x = sqrt pi * spec_eigenfunction n x
   \<and> QHOBasis 0 0 = pi powr (1 / 4)
   \<and> spec_eigenfunction 0 0 = 1 / pi powr (1 / 4)
   \<and> QHOBasis 0 0 \<noteq> spec_eigenfunction 0 0"
proof -
  have c: "QHOBasis 0 0 = pi powr (1 / 4)" by (simp add: QHOBasis_def)
  have s: "spec_eigenfunction 0 0 = 1 / pi powr (1 / 4)"
    by (simp add: spec_eigenfunction_def pi_powr_quarter)
  have "1 < sqrt (sqrt pi)" using pi_ge_two by simp
  then have "1 < pi powr (1 / 4)" by (simp add: pi_powr_quarter)
  then have "1 / pi powr (1 / 4) < pi powr (1 / 4)" by (simp add: field_simps less_1_mult)
  then show ?thesis using c s QHOBasis_vs_spec [of n x] by simp
qed

section \<open>Construction and evaluation of a WaveFunction\<close>

lemma normalize_QHO:
  assumes "nat d \<le> length cs"
  shows "normalize quad (\<lambda>x. evaluate_raw (HilbertSpace_init d ''QHO'' pot) cs x 0)
           = bind_err (quad (\<lambda>x. Inr ((cmod (spec_raw d cs x 0)) ^ 2))) (\<lambda>v. Inr (np_sqrt v))"
  using assms by (simp add: normalize_def evaluate_raw_QHO)

lemma WaveFunction_init_coeff:
  assumes "nat d \<le> length cs"
  shows "WaveFunction_init quad g (HilbertSpace_init d ''QHO'' pot) w0 (Some cs)
           = bind_err (quad (\<lambda>x. Inr ((cmod (spec_raw d cs x 0)) ^ 2)))
               (\<lambda>v. Inr \<lparr> hilbert = HilbertSpace_init d ''QHO'' pot, coeff = cs,
                            normF = np_sqrt v \<rparr>)"
proof (cases "quad (\<lambda>x. Inr ((cmod (spec_raw d cs x 0)) ^ 2))")
  case (Inl e)
  then show ?thesis using assms by (simp add: WaveFunction_init_def normalize_QHO)
next
  case (Inr v)
  then show ?thesis using assms by (simp add: WaveFunction_init_def normalize_QHO)
qed

lemma evaluate_QHO:
  assumes "hilbert psi = HilbertSpace_init d ''QHO'' pot" and "nat d \<le> length (coeff psi)"
  shows "evaluate psi x t = Inr (np_div (spec_raw d (coeff psi) x t) (normF psi))"
  using assms by (simp add: evaluate_def evaluate_raw_QHO)

text \<open>
  C1. Over a HilbertSpace of dimension dim with the quantum-harmonic-oscillator basis and
  with a coefficient vector covering the dim modes, let v be the positive number that
  the quadrature routine returns for the integrand |raw(x, 0)|^2 over the real line.
  Construction returns the object whose normF is the square root of v, computed once
  from the t = 0 slice, and its evaluator gives evaluate(x, t) = raw(x, t) / sqrt(v),
  where raw(x, t) is the sum over n below dim of
  coeff[n] * eigenbasis(n, x) * exp(-i (n + 1/2) t), and eigenbasis(n, x) is the entry of
  the table of mode n for the query x. The integral of the specification is the value of
  the routine: for queries from 14 upwards every table returns one and the same entry.
\<close>

theorem C1_evaluate_formula:
  assumes "nat d \<le> length cs"
    and "quad (\<lambda>x. Inr ((cmod (spec_raw d cs x 0)) ^ 2)) = Inr v"
    and "0 < v"
  shows "WaveFunction_init quad g (HilbertSpace_init d ''QHO'' pot) w0 (Some cs)
           = Inr \<lparr> hilbert = HilbertSpace_init d ''QHO'' pot, coeff = cs,
                   normF = Finite (sqrt v) \<rparr>
       \<and> evaluate \<lparr> hilbert = HilbertSpace_init d ''QHO'' pot, coeff = cs,
                     normF = Finite (sqrt v) \<rparr> x t
           = Inr (Finite ((\<Sum>n = 0..<nat d. cs ! n
                    * complex_of_real (QHOBasis n (basis_grid_point x))
                    * exp (- \<i> * complex_of_real (real n + 1 / 2) * complex_of_real t))
                  / complex_of_real (sqrt v)))
       \<and> spec_raw d cs x 0
           = (\<Sum>n = 0..<nat d. cs ! n * complex_of_real (QHOBasis n (basis_grid_point x)))
       \<and> (n < nat d \<longrightarrow>
            eigenbasis (HilbertSpace_init d ''QHO'' pot) (int n) x
              = Inr (QHOBasis n (basis_grid_point x)))"
proof -
  let ?h = "HilbertSpace_init d ''QHO'' pot"
  have s: "np_sqrt v = Finite (sqrt v)" using assms(3) by (simp add: np_sqrt_def)
  have built: "WaveFunction_init quad g ?h w0 (Some cs)
      = Inr \<lparr> hilbert = ?h, coeff = cs, normF = Finite (sqrt v) \<rparr>"
    using assms(1,2) by (simp add: WaveFunction_init_coeff s)
  have nz: "sqrt v \<noteq> 0" using assms(3) by simp
  have ev: "evaluate \<lparr> hilbert = ?h, coeff = cs, normF = Finite (sqrt v) \<rparr> x t
      = Inr (Finite (spec_raw d cs x t / complex_of_real (sqrt v)))"
    using assms(1) nz
    by (simp add: evaluate_QHO [where d = d and pot = pot] np_div_def)
  have raw0: "spec_raw d cs x 0
      = (\<Sum>n = 0..<nat d. cs ! n * complex_of_real (QHOBasis n (basis_grid_point x)))"
    by (simp add: spec_raw_def)
  show ?thesis
    using built ev raw0 eigenbasis_lookup [of n d pot x] by (simp add: spec_raw_def)
qed

lemma spec_raw_double:
  "spec_raw 1 [2] x t
     = 2 * complex_of_real (QHOBasis 0 (basis_grid_point x))
         * exp (- \<i> * complex_of_real (1 / 2) * complex_of_real t)"
  by (simp add: spec_raw_def)

lemma QHOBasis_0_pos: "0 < QHOBasis 0 y"
  by (simp add: QHOBasis_def)

lemma node_quad_single: "node_quad [(a, w)] g = bind_err (g a) (\<lambda>y. Inr (w * y))"
  by (cases "g a") simp_all

theorem C1_evaluate_formula_witness:
  "nat 1 \<le> length [2 :: complex]
   \<and> node_quad [(0, 1)] (\<lambda>x. Inr ((cmod (spec_raw 1 [2] x 0)) ^ 2))
       = Inr ((2 * QHOBasis 0 (basis_grid_point 0)) ^ 2)
   \<and> 0 < (2 * QHOBasis 0 (basis_grid_point 0)) ^ 2
   \<and> (0 :: nat) < nat 1
   \<and> WaveFunction_init (node_quad [(0, 1)]) hs (HilbertSpace_init 1 ''QHO'' None) None (Some [2])
       = Inr \<lparr> hilbert = HilbertSpace_init 1 ''QHO'' None, coeff = [2],
               normF = Finite (2 * QHOBasis 0 (basis_grid_point 0)) \<rparr>
   \<and> evaluate \<lparr> hilbert = HilbertSpace_init 1 ''QHO'' None, coeff = [2],
                 normF = Finite (2 * QHOBasis 0 (basis_grid_point 0)) \<rparr> 0 0
       = Inr (Finite 1)
   \<and> eigenbasis (HilbertSpace_init 1 ''QHO'' None) (int 0) 0
       = Inr (QHOBasis 0 (basis_grid_point 0))"
proof -
  let ?b = "QHOBasis 0 (basis_grid_point 0)"
  have pos: "0 < ?b" by (rule QHOBasis_0_pos)
  have l: "nat 1 \<le> length [2 :: complex]" by simp
  have q: "node_quad [(0, 1)] (\<lambda>x. Inr ((cmod (spec_raw 1 [2] x 0)) ^ 2)) = Inr ((2 * ?b) ^ 2)"
    using pos by (simp add: node_quad_single spec_raw_double norm_mult power_mult_distrib)
  have v: "0 < (2 * ?b) ^ 2" using pos by simp
  have r: "sqrt ((2 * ?b) ^ 2) = 2 * ?b"
    by (subst real_sqrt_abs) (use pos in simp)
  have ne: "?b \<noteq> 0" using pos by simp
  show ?thesis
    using C1_evaluate_formula [where d = 1 and cs = "[2]" and quad = "node_quad [(0, 1)]"
        and v = "(2 * ?b) ^ 2" and g = hs and pot = None and ?w0.0 = None and x = 0 and t = 0
        and n = 0, OF l q v] q v ne
    unfolding r by simp
qed

lemma WaveFunction_init_fields:
  assumes "WaveFunction_init quad g h w0 (Some cs) = Inr psi"
  shows "hilbert psi = h \<and> coeff psi = cs"
proof (cases "normalize quad (\<lambda>x. evaluate_raw h cs x 0)")
  case (Inl e)
  then show ?thesis using assms by (simp add: WaveFunction_init_def)
next
  case (Inr nf)
  then show ?thesis using assms by (auto simp: WaveFunction_init_def)
qed

lemma spec_raw_single: 
  "spec_raw 1 [1] x t
     = complex_of_real (QHOBasis 0 (basis_grid_point x))
         * exp (- \<i> * complex_of_real (1 / 2) * complex_of_real t)"
  by (simp add: spec_raw_def)

text \<open>
  C7. For a WaveFunction constructed over a HilbertSpace of dimension 1 from the
  coefficient vector [1], with a finite non-zero normF: evaluate(x, t) is
  evaluate(x, 0) * exp(-i * 0.5 * t), and the modulus of evaluate(x, t) is that of
  evaluate(x, 0), for every x and t.
\<close>

theorem C7_single_mode_stationary:
  assumes "WaveFunction_init quad g (HilbertSpace_init 1 ''QHO'' pot) w0 (Some [1]) = Inr psi"
    and "normF psi = Finite r" and "r \<noteq> 0"
  shows "evaluate psi x 0
           = Inr (Finite (complex_of_real (QHOBasis 0 (basis_grid_point x)) / complex_of_real r))
       \<and> evaluate psi x t
           = map_sum id (map_np (\<lambda>z. z * exp (- \<i> * 0.5 * complex_of_real t))) (evaluate psi x 0)
       \<and> map_sum id (map_np cmod) (evaluate psi x t)
           = map_sum id (map_np cmod) (evaluate psi x 0)"
proof -
  have f: "hilbert psi = HilbertSpace_init 1 ''QHO'' pot" "coeff psi = [1]"
    using WaveFunction_init_fields [OF assms(1)] by simp_all
  have ev: "evaluate psi x s
      = Inr (Finite (complex_of_real (QHOBasis 0 (basis_grid_point x))
               * exp (- \<i> * complex_of_real (1 / 2) * complex_of_real s) / complex_of_real r))"
    for s
    using evaluate_QHO [of psi 1 pot x s] f assms(2,3)
    by (simp add: spec_raw_single np_div_def)
  have e0: "evaluate psi x 0
      = Inr (Finite (complex_of_real (QHOBasis 0 (basis_grid_point x)) / complex_of_real r))"
    using ev [of 0] by simp
  have et: "evaluate psi x t
      = map_sum id (map_np (\<lambda>z. z * exp (- \<i> * 0.5 * complex_of_real t))) (evaluate psi x 0)"
    unfolding e0 ev [of t] by simp
  have m: "map_sum id (map_np cmod) (evaluate psi x t) = map_sum id (map_np cmod) (evaluate psi x 0)"
    unfolding e0 ev [of t] by (simp add: norm_mult norm_divide)
  show ?thesis using e0 et m by blast
qed

theorem C7_single_mode_stationary_witness:
  "WaveFunction_init (node_quad [(0, 1)]) hs (HilbertSpace_init 1 ''QHO'' None) None (Some [1])
     = Inr \<lparr> hilbert = HilbertSpace_init 1 ''QHO'' None, coeff = [1],
             normF = Finite (QHOBasis 0 (basis_grid_point 0)) \<rparr>
   \<and> QHOBasis 0 (basis_grid_point 0) \<noteq> 0
   \<and> evaluate \<lparr> hilbert = HilbertSpace_init 1 ''QHO'' None, coeff = [1],
                 normF = Finite (QHOBasis 0 (basis_grid_point 0)) \<rparr> 0 0
       = Inr (Finite 1)
   \<and> map_sum id (map_np cmod)
         (evaluate \<lparr> hilbert = HilbertSpace_init 1 ''QHO'' None, coeff = [1],
                      normF = Finite (QHOBasis 0 (basis_grid_point 0)) \<rparr> 0 1)
       = map_sum id (map_np cmod)
           (evaluate \<lparr> hilbert = HilbertSpace_init 1 ''QHO'' None, coeff = [1],
                        normF = Finite (QHOBasis 0 (basis_grid_point 0)) \<rparr> 0 0)"
proof -
  let ?b = "QHOBasis 0 (basis_grid_point 0)"
  let ?psi = "\<lparr> hilbert = HilbertSpace_init 1 ''QHO'' None, coeff = [1], normF = Finite ?b \<rparr>"
  have pos: "0 < ?b" by (rule QHOBasis_0_pos)
  have built: "WaveFunction_init (node_quad [(0, 1)]) hs (HilbertSpace_init 1 ''QHO'' None) None
      (Some [1]) = Inr ?psi"
    using pos
    by (simp add: WaveFunction_init_coeff node_quad_single spec_raw_single np_sqrt_def)
  have ne: "?b \<noteq> 0" using pos by simp
  show ?thesis
    using C7_single_mode_stationary [OF built _ ne, of 0 1] built ne by simp
qed

section \<open>Degenerate normalisation\<close>

lemma spec_raw_zero: "spec_raw 1 [0] x t = 0"
  by (simp add: spec_raw_def)

text \<open>
  C8 as the claim states it fails: with the coefficient vector [0] over a HilbertSpace of
  dimension 1 the quadrature of the zero integrand is 0, construction raises nothing and
  returns the object with normF = 0, whose evaluator divides by it.
\<close>

theorem C8_zero_coefficients_counterexample:
  "WaveFunction_init (node_quad [(- 1, 1), (0, 1), (1, 1)]) hs
       (HilbertSpace_init 1 ''QHO'' None) None (Some [0])
     = Inr \<lparr> hilbert = HilbertSpace_init 1 ''QHO'' None, coeff = [0], normF = Finite 0 \<rparr>
   \<and> evaluate \<lparr> hilbert = HilbertSpace_init 1 ''QHO'' None, coeff = [0], normF = Finite 0 \<rparr> 0 0
       = Inr NonFinite"
proof -
  have "WaveFunction_init (node_quad [(- 1, 1), (0, 1), (1, 1)]) hs
       (HilbertSpace_init 1 ''QHO'' None) None (Some [0])
     = Inr \<lparr> hilbert = HilbertSpace_init 1 ''QHO'' None, coeff = [0], normF = Finite 0 \<rparr>"
    by (simp add: WaveFunction_init_coeff spec_raw_zero np_sqrt_def)
  moreover have "evaluate \<lparr> hilbert = HilbertSpace_init 1 ''QHO'' None, coeff = [0],
      normF = Finite 0 \<rparr> 0 0 = Inr NonFinite"
    by (simp add: evaluate_QHO [where d = 1 and pot = None] np_div_def)
  ultimately show ?thesis by blast
qed

text \<open>
  C8, amended. Construction does not inspect the normalisation integral. With a
  coefficient vector covering the dim modes it succeeds whenever the quadrature returns a
  value v, and captures normF = sqrt(v) (not a number when v is negative). When v is zero
  or negative the evaluator is returned all the same, and each evaluation yields a
  non-finite amplitude instead of an error.
\<close>

theorem C8_no_normalisation_check:
  assumes "nat d \<le> length cs"
    and "quad (\<lambda>x. Inr ((cmod (spec_raw d cs x 0)) ^ 2)) = Inr v"
  shows "WaveFunction_init quad g (HilbertSpace_init d ''QHO'' pot) w0 (Some cs)
           = Inr \<lparr> hilbert = HilbertSpace_init d ''QHO'' pot, coeff = cs, normF = np_sqrt v \<rparr>
       \<and> (v \<le> 0 \<longrightarrow>
            evaluate \<lparr> hilbert = HilbertSpace_init d ''QHO'' pot, coeff = cs,
                        normF = np_sqrt v \<rparr> x t = Inr NonFinite)"
proof -
  have "WaveFunction_init quad g (HilbertSpace_init d ''QHO'' pot) w0 (Some cs)
      = Inr \<lparr> hilbert = HilbertSpace_init d ''QHO'' pot, coeff = cs, normF = np_sqrt v \<rparr>"
    using assms by (simp add: WaveFunction_init_coeff)
  moreover have "evaluate \<lparr> hilbert = HilbertSpace_init d ''QHO'' pot, coeff = cs,
      normF = np_sqrt v \<rparr> x t = Inr NonFinite" if "v \<le> 0"
    using that assms(1)
    by (simp add: evaluate_QHO [where d = d and pot = pot] np_div_def np_sqrt_def)
  ultimately show ?thesis by blast
qed

theorem C8_no_normalisation_check_witness:
  "nat 1 \<le> length [0 :: complex]
   \<and> node_quad [(0, 1)] (\<lambda>x. Inr ((cmod (spec_raw 1 [0] x 0)) ^ 2)) = Inr 0
   \<and> (0 :: real) \<le> 0
   \<and> WaveFunction_init (node_quad [(0, 1)]) hs (HilbertSpace_init 1 ''QHO'' None) None (Some [0])
       = Inr \<lparr> hilbert = HilbertSpace_init 1 ''QHO'' None, coeff = [0], normF = np_sqrt 0 \<rparr>
   \<and> evaluate \<lparr> hilbert = HilbertSpace_init 1 ''QHO'' None, coeff = [0],
                 normF = np_sqrt 0 \<rparr> 2 3 = Inr NonFinite"
proof -
  have q: "node_quad [(0, 1)] (\<lambda>x. Inr ((cmod (spec_raw 1 [0] x 0)) ^ 2)) = Inr 0"
    by (simp add: spec_raw_zero)
  have l: "nat 1 \<le> length [0 :: complex]" by simp
  show ?thesis
    using C8_no_normalisation_check [where d = 1 and cs = "[0]" and quad = "node_quad [(0, 1)]"
        and v = 0 and g = hs and pot = None and ?w0.0 = None and x = 2 and t = 3, OF l q] q
    by simp
qed

section \<open>The potential\<close>

lemma eigenbasis_pot:
  "eigenbasis (HilbertSpace_init d basis pot1) = eigenbasis (HilbertSpace_init d basis pot2)"
  by (intro ext) (simp add: eigenbasis_def HilbertSpace_init_def)

lemma phaseFactor_pot:
  "phaseFactor (HilbertSpace_init d basis pot1) = phaseFactor (HilbertSpace_init d basis pot2)"
  by (intro ext) (simp add: phaseFactor_def eigenvalues_def HilbertSpace_init_def)

lemma evaluate_terms_pot:
  "evaluate_terms (HilbertSpace_init d basis pot1) cs x t ns
     = evaluate_terms (HilbertSpace_init d basis pot2) cs x t ns"
  by (induction ns) (simp_all add: eigenbasis_pot [of d basis pot1 pot2]
      phaseFactor_pot [of d basis pot1 pot2])

lemma evaluate_raw_pot:
  "evaluate_raw (HilbertSpace_init d basis pot1) cs x t
     = evaluate_raw (HilbertSpace_init d basis pot2) cs x t"
  by (simp add: evaluate_raw_def evaluate_terms_pot [of d basis pot1 cs x t _ pot2])

lemma projection_loop_pot:
  "projection_loop quad (HilbertSpace_init d basis pot1) w0 ns acc
     = projection_loop quad (HilbertSpace_init d basis pot2) w0 ns acc"
  by (induction ns arbitrary: acc) (simp_all add: eigenbasis_pot [of d basis pot1 pot2])

lemma evaluate_pot:
  "evaluate \<lparr> hilbert = HilbertSpace_init d basis pot1, coeff = cs, normF = nf \<rparr> x t
     = evaluate \<lparr> hilbert = HilbertSpace_init d basis pot2, coeff = cs, normF = nf \<rparr> x t"
  by (simp add: evaluate_def evaluate_raw_pot [of d basis pot1 cs x t pot2])

text \<open>
  C9. Two HilbertSpaces built with the same dimension and basis and with any two
  potentials (given or absent) give the same outcome of WaveFunction construction from the
  same coefficients or initial waveform: the same exception, or evaluators that return
  the same value of evaluate(x, t) for every x and t.
\<close>

theorem C9_potential_unused:
  "map_sum id (\<lambda>psi. evaluate psi x t)
       (WaveFunction_init quad g (HilbertSpace_init d basis pot1) w0 c)
     = map_sum id (\<lambda>psi. evaluate psi x t)
         (WaveFunction_init quad g (HilbertSpace_init d basis pot2) w0 c)"
proof -
  let ?h1 = "HilbertSpace_init d basis pot1" and ?h2 = "HilbertSpace_init d basis pot2"
  define cf1 where "cf1 = (case c of Some cs \<Rightarrow> Inr cs
      | None \<Rightarrow> orthogonalBasisProjection quad g ?h1 w0)"
  define cf2 where "cf2 = (case c of Some cs \<Rightarrow> Inr cs
      | None \<Rightarrow> orthogonalBasisProjection quad g ?h2 w0)"
  have cf: "cf1 = cf2"
    unfolding cf1_def cf2_def orthogonalBasisProjection_def
    using projection_loop_pot [of quad d basis pot1 w0 _ _ pot2]
    by (simp split: option.split)
  have nrm: "normalize quad (\<lambda>y. evaluate_raw ?h1 cs y 0)
      = normalize quad (\<lambda>y. evaluate_raw ?h2 cs y 0)" for cs
    using evaluate_raw_pot [of d basis pot1 cs _ 0 pot2] by simp
  have w1: "WaveFunction_init quad g ?h1 w0 c
      = bind_err cf1 (\<lambda>cs. bind_err (normalize quad (\<lambda>y. evaluate_raw ?h1 cs y 0))
          (\<lambda>nf. Inr \<lparr> hilbert = ?h1, coeff = cs, normF = nf \<rparr>))"
    by (simp add: WaveFunction_init_def cf1_def)
  have w2: "WaveFunction_init quad g ?h2 w0 c
      = bind_err cf2 (\<lambda>cs. bind_err (normalize quad (\<lambda>y. evaluate_raw ?h2 cs y 0))
          (\<lambda>nf. Inr \<lparr> hilbert = ?h2, coeff = cs, normF = nf \<rparr>))"
    by (simp add: WaveFunction_init_def cf2_def)
  show ?thesis
  proof (cases cf2)
    case (Inl e)
    then show ?thesis unfolding w1 w2 cf by simp
  next
    case (Inr cs)
    show ?thesis
    proof (cases "normalize quad (\<lambda>y. evaluate_raw ?h2 cs y 0)")
      case (Inl e)
      then show ?thesis unfolding w1 w2 cf Inr by (simp add: nrm)
    next
      case inner: (Inr nf)
      then show ?thesis
        unfolding w1 w2 cf Inr by (simp add: nrm evaluate_pot [of d basis pot1 cs nf x t pot2])
    qed
  qed
qed

section \<open>Projection of an initial waveform\<close>

lemma projection_loop_length:
  "projection_loop quad h w0 ns acc = Inr cs \<Longrightarrow> length cs = length acc + length ns"
proof (induction ns arbitrary: acc)
  case Nil
  then show ?case by simp
next
  case (Cons n ns)
  show ?case
  proof (cases "quad (\<lambda>x. bind_err (eigenbasis h (int n) x) (\<lambda>b.
          case w0 of None \<Rightarrow> Inl TypeError | Some w \<Rightarrow> Inr (b * w x)))")
    case (Inl e)
    then show ?thesis using Cons.prems by simp
  next
    case (Inr c)
    then have "projection_loop quad h w0 ns (acc @ [complex_of_real c]) = Inr cs"
      using Cons.prems by simp
    then show ?thesis using Cons.IH by fastforce
  qed
qed

lemma orthogonalBasisProjection_length:
  "orthogonalBasisProjection quad g h w0 = Inr cs \<Longrightarrow> length cs = nat (dim g)"
  using projection_loop_length [of quad h w0 "[0..<nat (dim g)]" "[]" cs]
  by (simp add: orthogonalBasisProjection_def)

lemma dim_hs: "dim hs = 2"
  by (simp add: hs_def)

lemma upt_two: "[0..<2] = [0, Suc 0]"
  by (simp add: upt_rec)

text \<open>
  C2. The projection loop runs over \<open>range(hs.dim)\<close> of the module-level \<open>hs\<close>
  (dimension 2), not over the dimension of the HilbertSpace given to the constructor.
  Constructed over a HilbertSpace of dimension 3 from a Gaussian, the projection produces
  2 coefficients and construction then fails with IndexError, the superposition reading
  \<open>coeff[2]\<close>; constructed over a HilbertSpace of dimension 1, the projection itself
  fails with IndexError, reading the table of mode 1.
\<close>

theorem C2_projection_uses_module_hs:
  "map_sum id length
       (orthogonalBasisProjection (node_quad [(0, 1)]) hs (HilbertSpace_init 3 ''QHO'' None)
          (Some gaussian))
     = Inr 2
   \<and> dim (HilbertSpace_init 3 ''QHO'' None) = 3
   \<and> WaveFunction_init (node_quad [(0, 1)]) hs (HilbertSpace_init 3 ''QHO'' None)
         (Some gaussian) None
       = Inl IndexError
   \<and> orthogonalBasisProjection (node_quad [(0, 1)]) hs (HilbertSpace_init 1 ''QHO'' None)
         (Some gaussian)
       = Inl IndexError"
proof -
  let ?q = "node_quad [(0, 1)]"
  let ?h3 = "HilbertSpace_init 3 ''QHO'' None"
  let ?h1 = "HilbertSpace_init 1 ''QHO'' None"
  define c0 where "c0 = complex_of_real (QHOBasis 0 (basis_grid_point 0) * gaussian 0)"
  define c1 where "c1 = complex_of_real (QHOBasis 1 (basis_grid_point 0) * gaussian 0)"
  have e0: "eigenbasis ?h3 0 x = Inr (QHOBasis 0 (basis_grid_point x))" for x
    using eigenbasis_lookup [of 0 3 None x] by simp
  have e1: "eigenbasis ?h3 1 x = Inr (QHOBasis 1 (basis_grid_point x))" for x
    using eigenbasis_lookup [of 1 3 None x] by simp
  have proj: "orthogonalBasisProjection ?q hs ?h3 (Some gaussian) = Inr [c0, c1]"
    by (simp add: orthogonalBasisProjection_def dim_hs upt_two node_quad_single e0 e1
        c0_def c1_def)
  have short: "evaluate_raw ?h3 [c0, c1] x 0 = Inl IndexError" for x
    by (rule evaluate_raw_short) simp
  have init: "WaveFunction_init ?q hs ?h3 (Some gaussian) None = Inl IndexError"
    by (simp add: WaveFunction_init_def proj normalize_def short node_quad_single)
  have b1: "eigenbasis ?h1 1 x = Inl IndexError" for x
    using eigenbasis_beyond [of 1 1 None x] by simp
  have f0: "eigenbasis ?h1 0 x = Inr (QHOBasis 0 (basis_grid_point x))" for x
    using eigenbasis_lookup [of 0 1 None x] by simp
  have small: "orthogonalBasisProjection ?q hs ?h1 (Some gaussian) = Inl IndexError"
    by (simp add: orthogonalBasisProjection_def dim_hs upt_two node_quad_single f0 b1)
  show ?thesis using proj init small by simp
qed

end
